theory Spec2Isabelle
  imports Complex_Main
begin

section \<open>Python strings\<close>

text \<open>
  A Python \<open>str\<close> is modelled as a \<open>string\<close>: a list of code points, each an 8-bit
  \<open>char\<close>, so the alphabet is Latin-1 (U+0000 to U+00FF). On this alphabet the
  character classes of Python are finite tables and are written out below.

  \<open>str.isspace\<close> on one character: the Unicode white space of Latin-1, that is TAB, LF,
  VT, FF, CR, the four separators FS, GS, RS, US, the space, NEL (U+0085) and the
  no-break space (U+00A0). \<open>str.strip()\<close> with no argument removes exactly these from
  both ends, and the regular-expression class \<open>\s\<close> matches exactly these.
\<close>

definition isspace :: "char \<Rightarrow> bool" where
  "isspace c = (of_char c \<in> set [9, 10, 11, 12, 13, 28, 29, 30, 31, 32, 133, 160 :: nat])"

text \<open>\<open>s.strip()\<close>, for any character type, given its white-space class.\<close>

definition strip_by :: "('c \<Rightarrow> bool) \<Rightarrow> 'c list \<Rightarrow> 'c list" where
  "strip_by sp s = rev (dropWhile sp (rev (dropWhile sp s)))"

definition strip :: "string \<Rightarrow> string" where
  "strip s = strip_by isspace s"

text \<open>\<open>s.startswith(p)\<close>.\<close>

fun startswith :: "'c list \<Rightarrow> 'c list \<Rightarrow> bool" where
  "startswith s [] = True"
| "startswith [] (p # ps) = False"
| "startswith (c # cs) (p # ps) = (c = p \<and> startswith cs ps)"

section \<open>Python floats\<close>

text \<open>
  A Python \<open>float\<close> is a double: a finite value, which is a rational number, one of the
  two infinities, or a NaN. The comparisons below are those of IEEE 754, which Python
  uses: a NaN is neither less than nor greater than anything.
\<close>

datatype pyfloat = Finite rat | PosInf | NegInf | NaN

fun flt :: "pyfloat \<Rightarrow> pyfloat \<Rightarrow> bool" where
  "flt NaN y = False"
| "flt x NaN = False"
| "flt (Finite a) (Finite b) = (a < b)"
| "flt (Finite a) PosInf = True"
| "flt (Finite a) NegInf = False"
| "flt PosInf y = False"
| "flt NegInf NegInf = False"
| "flt NegInf y = True"

text \<open>\<open>x >= y\<close> and \<open>x > y\<close> on floats.\<close>

fun fge :: "pyfloat \<Rightarrow> pyfloat \<Rightarrow> bool" where
  "fge NaN y = False"
| "fge x NaN = False"
| "fge x y = (\<not> flt x y)"

definition fgt :: "pyfloat \<Rightarrow> pyfloat \<Rightarrow> bool" where
  "fgt x y = flt y x"

section \<open>The layout extractor's table (models.py, marker\_extractor.py)\<close>

text \<open>
  The dataclass \<open>MarkerTable\<close>: a grid of cell strings, the header row, the page number
  and the optional bounding boxes (lists of floats, which no function below reads).
\<close>

record MarkerTable =
  cells :: "string list list"
  headers :: "string list"
  page_number :: int
  bboxes :: "pyfloat list list option"

text \<open>
  \<open>any(cell.strip() for cell in row)\<close>: a stripped cell is truthy when it is not the
  empty string.
\<close>

definition any_cell :: "string list \<Rightarrow> bool" where
  "any_cell row = list_ex (\<lambda>cell. strip cell \<noteq> []) row"

text \<open>
  The loop that looks for the header row: the index of the first row with a non-blank
  cell, where the loop breaks; \<open>None\<close> when the loop runs to its end.
\<close>

fun first_nonblank_row :: "string list list \<Rightarrow> nat option" where
  "first_nonblank_row [] = None"
| "first_nonblank_row (row # rows) =
     (if any_cell row then Some 0 else map_option Suc (first_nonblank_row rows))"

text \<open>\<open>row + [""] * (max_cols - len(row))\<close>: a negative count repeats nothing.\<close>

definition pad_row :: "nat \<Rightarrow> string list \<Rightarrow> string list" where
  "pad_row max_cols row = row @ replicate (max_cols - length row) []"

text \<open>
  \<open>MarkerTableExtractor.normalize_structure\<close>. \<open>header_row_idx\<close> starts at 0 and is
  overwritten where the loop breaks. The two slices are guarded as in the source.
  \<open>max(len(row) for row in [headers] + data_rows)\<close> is the maximum of a list that
  starts with the header's length.
\<close>

definition normalize_structure :: "MarkerTable \<Rightarrow> MarkerTable" where
  "normalize_structure table =
     (if cells table = [] then table
      else
        let header_row_idx = (case first_nonblank_row (cells table) of
                                None \<Rightarrow> 0 | Some idx \<Rightarrow> idx);
            hdrs = (if header_row_idx < length (cells table)
                    then cells table ! header_row_idx else []);
            rows_after = (if header_row_idx + 1 < length (cells table)
                          then drop (header_row_idx + 1) (cells table) else []);
            data_rows = filter any_cell rows_after;
            max_cols = (if data_rows \<noteq> []
                        then fold max (map length data_rows) (length hdrs)
                        else length hdrs);
            hdrs' = (if hdrs \<noteq> [] then pad_row max_cols hdrs else hdrs);
            normalized_cells = (if hdrs \<noteq> [] then [hdrs'] else [])
                               @ map (pad_row max_cols) data_rows
        in \<lparr>cells = normalized_cells, headers = hdrs',
            page_number = page_number table, bboxes = bboxes table\<rparr>)"

section \<open>Regular expressions (the part of \<open>re\<close> the program uses)\<close>

text \<open>
  The patterns of the program are built from character classes, concatenation, the
  greedy \<open>?\<close>, \<open>*\<close> and \<open>+\<close>. \<open>rmatch r s\<close> is the backtracking search of Python's
  engine at the start of \<open>s\<close>: the list of what is left of \<open>s\<close> after each way of
  matching \<open>r\<close>, in the order the engine tries them (a greedy operator tries the longer
  alternative first). The first element is the match the engine reports. An iteration
  of \<open>*\<close> that consumes nothing is not repeated.
\<close>

datatype 'c regex =
    Eps
  | Sym "'c \<Rightarrow> bool"
  | Cat "'c regex" "'c regex"
  | Opt "'c regex"
  | Star "'c regex"

fun rmatch :: "'c regex \<Rightarrow> 'c list \<Rightarrow> 'c list list" where
  "rmatch Eps s = [s]"
| "rmatch (Sym p) [] = []"
| "rmatch (Sym p) (c # cs) = (if p c then [cs] else [])"
| "rmatch (Cat a b) s = concat (map (rmatch b) (rmatch a s))"
| "rmatch (Opt a) s = rmatch a s @ [s]"
| "rmatch (Star a) s =
     concat (map (\<lambda>s'. if length s' < length s then rmatch (Star a) s' else [])
                 (rmatch a s)) @ [s]"

definition Plus :: "'c regex \<Rightarrow> 'c regex" where
  "Plus a = Cat a (Star a)"

text \<open>A sequence of patterns, and a literal string as a pattern.\<close>

definition Seq :: "'c regex list \<Rightarrow> 'c regex" where
  "Seq rs = foldr Cat rs Eps"

fun Lit :: "'c list \<Rightarrow> 'c regex" where
  "Lit [] = Eps"
| "Lit (c # cs) = Cat (Sym (\<lambda>x. x = c)) (Lit cs)"

text \<open>The length of the match the engine reports at the start of \<open>s\<close>, if there is one.\<close>

definition match_at :: "'c regex \<Rightarrow> 'c list \<Rightarrow> nat option" where
  "match_at r s = (case rmatch r s of [] \<Rightarrow> None | rest # _ \<Rightarrow> Some (length s - length rest))"

text \<open>
  \<open>re.finditer\<close>: the spans \<open>(start, end)\<close> of the non-overlapping matches, scanning from
  the left; after a match of length \<open>n\<close> the scan goes on at its end (\<open>skip\<close> counts the
  characters of the last match still to pass). \<open>pos\<close> is the position of the head of
  the remaining text. An empty match is reported once at its position; no pattern of the
  program matches the empty string.
\<close>

fun finditer_from :: "'c regex \<Rightarrow> nat \<Rightarrow> nat \<Rightarrow> 'c list \<Rightarrow> (nat \<times> nat) list" where
  "finditer_from r pos skip [] =
     (if skip = 0 \<and> match_at r [] \<noteq> None then [(pos, pos)] else [])"
| "finditer_from r pos skip (c # cs) =
     (if 0 < skip then finditer_from r (pos + 1) (skip - 1) cs
      else case match_at r (c # cs) of
             None \<Rightarrow> finditer_from r (pos + 1) 0 cs
           | Some n \<Rightarrow> (pos, pos + n) # finditer_from r (pos + 1) (n - 1) cs)"

definition finditer :: "'c regex \<Rightarrow> 'c list \<Rightarrow> (nat \<times> nat) list" where
  "finditer r s = finditer_from r 0 0 s"

text \<open>\<open>re.search\<close>: the span of the leftmost match.\<close>

fun search_from :: "'c regex \<Rightarrow> nat \<Rightarrow> 'c list \<Rightarrow> (nat \<times> nat) option" where
  "search_from r pos [] = map_option (\<lambda>n. (pos, pos + n)) (match_at r [])"
| "search_from r pos (c # cs) =
     (case match_at r (c # cs) of
        Some n \<Rightarrow> Some (pos, pos + n)
      | None \<Rightarrow> search_from r (pos + 1) cs)"

definition search :: "'c regex \<Rightarrow> 'c list \<Rightarrow> (nat \<times> nat) option" where
  "search r s = search_from r 0 s"

text \<open>\<open>re.sub(pattern, repl, s)\<close> for a replacement text without group references.\<close>

fun sub_from :: "'c regex \<Rightarrow> 'c list \<Rightarrow> nat \<Rightarrow> 'c list \<Rightarrow> 'c list" where
  "sub_from r repl skip [] = (if skip = 0 \<and> match_at r [] \<noteq> None then repl else [])"
| "sub_from r repl skip (c # cs) =
     (if 0 < skip then sub_from r repl (skip - 1) cs
      else case match_at r (c # cs) of
             None \<Rightarrow> c # sub_from r repl 0 cs
           | Some 0 \<Rightarrow> repl @ c # sub_from r repl 0 cs
           | Some (Suc n) \<Rightarrow> repl @ sub_from r repl n cs)"

definition re_sub :: "'c regex \<Rightarrow> 'c list \<Rightarrow> 'c list \<Rightarrow> 'c list" where
  "re_sub r repl s = sub_from r repl 0 s"

section \<open>More of \<open>str\<close>\<close>

text \<open>\<open>s.split(sep)\<close> for a separator of one character: never an empty list.\<close>

fun split_acc :: "'c \<Rightarrow> 'c list \<Rightarrow> 'c list \<Rightarrow> 'c list list" where
  "split_acc sep cur [] = [rev cur]"
| "split_acc sep cur (c # cs) =
     (if c = sep then rev cur # split_acc sep [] cs else split_acc sep (c # cur) cs)"

definition split :: "'c list \<Rightarrow> 'c \<Rightarrow> 'c list list" where
  "split s sep = split_acc sep [] s"

text \<open>\<open>sep.join(parts)\<close>.\<close>

fun join :: "'c list \<Rightarrow> 'c list list \<Rightarrow> 'c list" where
  "join sep [] = []"
| "join sep [p] = p"
| "join sep (p # q # ps) = p @ sep @ join sep (q # ps)"

text \<open>\<open>s.count("|")\<close>, a Python int.\<close>

definition count_bars :: "string \<Rightarrow> int" where
  "count_bars s = int (count_list s (CHR ''|''))"

section \<open>The fast extractor and its validator (pymupdf\_extractor.py)\<close>

text \<open>
  The dataclasses \<open>MarkdownTable\<close> and \<open>ValidationResult\<close>. A field name that another
  record of the program already has carries a prefix here: \<open>md_page_number\<close> is
  \<open>MarkdownTable.page_number\<close> and \<open>vr_confidence\<close> is \<open>ValidationResult.confidence\<close>.
\<close>

record MarkdownTable =
  markdown_text :: string
  estimated_rows :: int
  estimated_cols :: int
  confidence :: pyfloat
  md_page_number :: int

text \<open>
  The messages of the validator. The source builds them as formatted strings; here each
  is a constructor that keeps the values the string is formatted from.
\<close>

datatype message =
    TooFewColumns int int
  | TooFewRows int int
  | LowConfidence pyfloat pyfloat
  | HighEmptyCellRatio pyfloat
  | MalformedTable

record ValidationResult =
  passed :: bool
  errors :: "message list"
  warnings :: "message list"
  vr_confidence :: pyfloat

text \<open>The compiled pattern \<^verbatim>\<open>\|\s*\|\<close> and \<open>len(empty_cell_pattern.findall(row))\<close>.\<close>

definition empty_cell_pattern :: "char regex" where
  "empty_cell_pattern =
     Cat (Sym (\<lambda>c. c = CHR ''|'')) (Cat (Star (Sym isspace)) (Sym (\<lambda>c. c = CHR ''|'')))"

definition count_empty_cells :: "string \<Rightarrow> nat" where
  "count_empty_cells row = length (finditer empty_cell_pattern row)"

text \<open>
  The true division \<open>a / max(b, 1)\<close> of two ints. Its value is taken as the exact
  quotient; the double that Python computes is this quotient rounded to nearest.
\<close>

definition ratio :: "nat \<Rightarrow> int \<Rightarrow> rat" where
  "ratio a b = of_nat a / of_int (max b 1)"

text \<open>\<open>PyMuPDFTableExtractor._calculate_confidence\<close>.\<close>

definition calculate_confidence :: "string list \<Rightarrow> int \<Rightarrow> pyfloat" where
  "calculate_confidence rows expected_cols =
     (if rows = [] then Finite 0
      else
        let col_counts = map (\<lambda>row. count_bars row - 1) rows;
            consistent_cols = list_all (\<lambda>count. count = expected_cols) col_counts;
            empty_cells = sum_list (map count_empty_cells rows);
            total_cells = int (length rows) * expected_cols;
            empty_ratio = ratio empty_cells total_cells;
            c0 = (1 :: rat);
            c1 = (if \<not> consistent_cols then c0 * (7 / 10) else c0);
            c2 = (if empty_ratio > 2 / 10 then c1 * (6 / 10) else c1);
            c3 = (if length rows < 2 then c2 * (5 / 10) else c2)
        in Finite (max 0 (min 1 c3)))"

text \<open>\<open>PyMuPDFTableExtractor._is_separator\<close>; \<open>stripped.strip("|")\<close> removes bars at both ends.\<close>

definition is_separator :: "string \<Rightarrow> bool" where
  "is_separator line =
     (let stripped = strip line in
      if \<not> startswith stripped ''|'' then False
      else let content = strip (strip_by (\<lambda>c. c = CHR ''|'') stripped)
           in list_all (\<lambda>c. c \<in> set ''-: '') content)"

text \<open>
  \<open>PyMuPDFTableExtractor._parse_markdown_table\<close>: \<open>None\<close> when there is no line or no
  data row.
\<close>

definition parse_markdown_table :: "string list \<Rightarrow> int \<Rightarrow> MarkdownTable option" where
  "parse_markdown_table lines page_num =
     (if lines = [] then None
      else
        let data_rows = filter (\<lambda>line. startswith (strip line) ''|'' \<and> \<not> is_separator line) lines
        in case data_rows of
             [] \<Rightarrow> None
           | first_row # _ \<Rightarrow>
               let est_cols = count_bars first_row - 1;
                   est_rows = int (length data_rows) - 1;
                   conf = calculate_confidence data_rows est_cols
               in Some \<lparr>markdown_text = join ''\<newline>'' lines,
                        estimated_rows = max 0 est_rows,
                        estimated_cols = max 1 est_cols,
                        confidence = conf,
                        md_page_number = page_num\<rparr>)"

text \<open>\<open>PyMuPDFTableExtractor._estimate_empty_ratio\<close>.\<close>

definition estimate_empty_ratio :: "string \<Rightarrow> pyfloat" where
  "estimate_empty_ratio text =
     (let rows = filter (\<lambda>line. startswith (strip line) ''|'') (split text (CHR ''\<newline>''))
      in if rows = [] then Finite 0
         else
           let empty_cells = sum_list (map count_empty_cells rows);
               total_cells = sum_list (map (\<lambda>row. count_bars row - 1) rows)
           in Finite (ratio empty_cells total_cells))"

text \<open>
  \<open>PyMuPDFTableExtractor.validate_extraction\<close>. The four checks on \<open>errors\<close> and the one
  on \<open>warnings\<close> run one after the other, each appending to its list.
\<close>

definition validate_extraction :: "MarkdownTable \<Rightarrow> int \<Rightarrow> int \<Rightarrow> pyfloat \<Rightarrow> ValidationResult" where
  "validate_extraction table min_rows min_cols min_confidence =
     (let errors0 = [];
          warnings0 = [];
          errors1 = (if estimated_cols table < min_cols
                     then errors0 @ [TooFewColumns (estimated_cols table) min_cols] else errors0);
          errors2 = (if estimated_rows table < min_rows
                     then errors1 @ [TooFewRows (estimated_rows table) min_rows] else errors1);
          errors3 = (if flt (confidence table) min_confidence
                     then errors2 @ [LowConfidence (confidence table) min_confidence] else errors2);
          empty_ratio = estimate_empty_ratio (markdown_text table);
          warnings1 = (if fgt empty_ratio (Finite (2 / 10))
                       then warnings0 @ [HighEmptyCellRatio empty_ratio] else warnings0);
          errors4 = (if \<not> startswith (strip (markdown_text table)) ''|''
                     then errors3 @ [MalformedTable] else errors3)
      in \<lparr>passed = (length errors4 = 0), errors = errors4, warnings = warnings1,
          vr_confidence = confidence table\<rparr>)"

section \<open>The schema registry (schemas.py)\<close>

text \<open>
  \<open>s.replace(old, new)\<close>: every occurrence of \<open>old\<close>, found from the left and not
  overlapping, becomes \<open>new\<close>. With an empty \<open>old\<close>, \<open>new\<close> is put before every
  character and at the end.
\<close>

function replace :: "'c list \<Rightarrow> 'c list \<Rightarrow> 'c list \<Rightarrow> 'c list" where
  "replace [] old new = (if old = [] then new else [])"
| "replace (c # cs) old new =
     (if old = [] then new @ c # replace cs old new
      else if startswith (c # cs) old then new @ replace (drop (length old) (c # cs)) old new
      else c # replace cs old new)"
  by pat_completeness auto
termination
  by (relation "measure (\<lambda>(s, old, new). length s)") auto

text \<open>The Pydantic model classes that the registry maps to, named as in the source.\<close>

datatype schema = EnvelopeTable | FDWRTable | LightingTable | PipingInsulationTable | HVACTable

text \<open>The dict \<open>SCHEMA_REGISTRY\<close>, as its items in the order of the literal.\<close>

definition SCHEMA_REGISTRY :: "(string \<times> schema) list" where
  "SCHEMA_REGISTRY =
     [(''3.2.2.2'', EnvelopeTable),
      (''3.2.2.3'', EnvelopeTable),
      (''3.2.1.4'', FDWRTable),
      (''4.2.1.3'', LightingTable),
      (''5.2.5.3'', PipingInsulationTable),
      (''8.4.4.8.A'', HVACTable),
      (''8.4.4.8.B'', HVACTable)]"

text \<open>\<open>get_schema_for_table\<close>; \<open>dict.get\<close> gives \<open>None\<close> for a key that is absent.\<close>

definition get_schema_for_table :: "string \<Rightarrow> schema option" where
  "get_schema_for_table table_number =
     (let normalized = strip (replace (replace table_number ''Table '' []) ''A-'' [])
      in map_of SCHEMA_REGISTRY normalized)"

section \<open>The repair engine (llm\_repair.py)\<close>

subsection \<open>Values and exceptions\<close>

text \<open>
  What \<open>json.loads\<close> returns: \<open>None\<close>, a bool, an int, a float, a str, a list or a dict.
  A dict is given by its items; where a key occurs twice the later item is the dict's.
\<close>

datatype json =
    JNull
  | JBool bool
  | JInt int
  | JFloat pyfloat
  | JStr string
  | JArr "json list"
  | JObj "(string \<times> json) list"

text \<open>
  The exceptions that the program meets: \<open>json.JSONDecodeError\<close> with its text,
  \<open>TypeError\<close>, \<open>KeyError\<close>, \<open>IndexError\<close>, \<open>ZeroDivisionError\<close>, and any other exception
  with its text.
\<close>

datatype py_exception =
    JSONDecodeError string
  | TypeError
  | KeyError
  | IndexError
  | ZeroDivisionError
  | OtherException string

text \<open>
  One entry of \<open>ValidationError.errors()\<close>: the location, each item already passed
  through \<open>str\<close>, and the message.
\<close>

record error_detail =
  loc :: "string list"
  msg :: string

text \<open>
  What \<open>target_schema(**data)\<close> does for a dict \<open>data\<close>: it returns the model instance,
  raises Pydantic's \<open>ValidationError\<close>, or raises something else.
\<close>

datatype 'm construction =
    Validated 'm
  | ValidationError "error_detail list"
  | ConstructorRaised py_exception

text \<open>
  The error strings of the engine. The source formats each from the values kept here.
\<close>

datatype error_message =
    NoSchemaFound string
  | LLMRequestFailed py_exception
  | LLMRejectedInput json
  | InvalidJSON string
  | ValidationErrorIn string string
  | ValidationFailed py_exception

subsection \<open>Slices and searches of \<open>str\<close>\<close>

text \<open>
  \<open>s.find(sub, start)\<close>: the lowest index at or after \<open>start\<close> where \<open>sub\<close> occurs, or
  \<open>-1\<close>. A negative \<open>start\<close> counts from the end.
\<close>

fun find_from :: "'c list \<Rightarrow> 'c list \<Rightarrow> nat \<Rightarrow> int" where
  "find_from [] sub pos = (if sub = [] then int pos else -1)"
| "find_from (c # cs) sub pos =
     (if startswith (c # cs) sub then int pos else find_from cs sub (pos + 1))"

definition find :: "'c list \<Rightarrow> 'c list \<Rightarrow> int \<Rightarrow> int" where
  "find s sub start =
     (let n = int (length s);
          a = (if start < 0 then max 0 (start + n) else start)
      in if a > n then -1 else find_from (drop (nat a) s) sub (nat a))"

text \<open>\<open>s.rfind(sub)\<close>: the highest index where \<open>sub\<close> occurs, or \<open>-1\<close>.\<close>

definition rfind :: "'c list \<Rightarrow> 'c list \<Rightarrow> int" where
  "rfind s sub =
     (let j = find (rev s) (rev sub) 0
      in if j = -1 then -1 else int (length s) - int (length sub) - j)"

text \<open>\<open>s[start:end]\<close>, negative bounds counting from the end and both clipped.\<close>

definition slice :: "'c list \<Rightarrow> int \<Rightarrow> int \<Rightarrow> 'c list" where
  "slice s start end =
     (let n = int (length s);
          a = min n (if start < 0 then max 0 (start + n) else start);
          b = min n (if end < 0 then max 0 (end + n) else end)
      in take (nat (b - a)) (drop (nat a) s))"

text \<open>\<open>LLMTableRepairer._extract_json_from_markdown\<close>. The fence is three back quotes.\<close>

definition fence :: string where
  "fence = [CHR 0x60, CHR 0x60, CHR 0x60]"

definition extract_json_from_markdown :: "string \<Rightarrow> string" where
  "extract_json_from_markdown text0 =
     (let text1 = strip text0
      in if startswith text1 fence then
           let start0 = find text1 ''\<newline>'' (find text1 fence 0);
               start = (if start0 = -1 then find text1 fence 0 + 3 else start0);
               end0 = rfind text1 fence;
               end = (if end0 = -1 then int (length text1) else end0)
           in strip (slice text1 start end)
         else text1)"

subsection \<open>Operations on the parsed value\<close>

text \<open>
  \<open>"error" in data\<close>: a key test on a dict, an element test on a list, a substring test
  on a str; a \<open>TypeError\<close> on the other values, which are not containers.
\<close>

fun contains_error :: "json \<Rightarrow> py_exception + bool" where
  "contains_error (JObj items) = Inr (''error'' \<in> set (map fst items))"
| "contains_error (JArr xs) = Inr (JStr ''error'' \<in> set xs)"
| "contains_error (JStr s) = Inr (find s ''error'' 0 \<noteq> -1)"
| "contains_error other = Inl TypeError"

text \<open>\<open>len(data)\<close>.\<close>

fun py_len :: "json \<Rightarrow> py_exception + nat" where
  "py_len (JObj items) = Inr (length (remdups (map fst items)))"
| "py_len (JArr xs) = Inr (length xs)"
| "py_len (JStr s) = Inr (length s)"
| "py_len other = Inl TypeError"

text \<open>\<open>data['error']\<close>: a dict lookup; a list or a str does not take a str as index.\<close>

fun get_error_item :: "json \<Rightarrow> py_exception + json" where
  "get_error_item (JObj items) =
     (case map_of (rev items) ''error'' of None \<Rightarrow> Inl KeyError | Some v \<Rightarrow> Inr v)"
| "get_error_item other = Inl TypeError"

text \<open>\<open>"error" in data and len(data) == 1\<close>: the length is read only after a positive test.\<close>

definition is_error_response :: "json \<Rightarrow> py_exception + bool" where
  "is_error_response data =
     (case contains_error data of
        Inl e \<Rightarrow> Inl e
      | Inr False \<Rightarrow> Inr False
      | Inr True \<Rightarrow> (case py_len data of Inl e \<Rightarrow> Inl e | Inr n \<Rightarrow> Inr (n = 1)))"

subsection \<open>Validation of the model's output\<close>

text \<open>
  \<open>LLMTableRepairer.validate_output\<close>. Two library calls are parameters: \<open>json_loads\<close>
  is \<open>json.loads\<close>, which returns a value or raises, and \<open>construct_model\<close> is the call
  \<open>target_schema(**data)\<close> on a dict. The first \<open>try\<close> catches \<open>JSONDecodeError\<close> only, so
  any other exception raised inside it leaves the function (\<open>Inl\<close>). The second \<open>try\<close>
  catches every exception; \<open>**data\<close> on a value that is not a dict raises \<open>TypeError\<close>
  there.
\<close>

definition validate_output ::
  "(string \<Rightarrow> py_exception + json) \<Rightarrow> (schema \<Rightarrow> (string \<times> json) list \<Rightarrow> 'm construction)
   \<Rightarrow> string \<Rightarrow> schema \<Rightarrow> py_exception + ('m option \<times> error_message list)" where
  "validate_output json_loads construct_model llm_output target_schema =
     (let json_str = extract_json_from_markdown llm_output
      in case json_loads json_str of
           Inl (JSONDecodeError text) \<Rightarrow> Inr (None, [InvalidJSON text])
         | Inl e \<Rightarrow> Inl e
         | Inr data \<Rightarrow>
             (case is_error_response data of
                Inl e \<Rightarrow> Inl e
              | Inr True \<Rightarrow>
                  (case get_error_item data of
                     Inl e \<Rightarrow> Inl e
                   | Inr reason \<Rightarrow> Inr (None, [LLMRejectedInput reason]))
              | Inr False \<Rightarrow>
                  (case data of
                     JObj items \<Rightarrow>
                       (case construct_model target_schema items of
                          Validated validated_model \<Rightarrow> Inr (Some validated_model, [])
                        | ValidationError details \<Rightarrow>
                            Inr (None, map (\<lambda>d. ValidationErrorIn (join '' -> '' (loc d)) (msg d))
                                           details)
                        | ConstructorRaised e \<Rightarrow> Inr (None, [ValidationFailed e]))
                   | _ \<Rightarrow> Inr (None, [ValidationFailed TypeError]))))"

subsection \<open>The prompt and the call of the model\<close>

text \<open>
  \<open>_get_table_specific_instructions\<close>: a dict of seven texts with a default. A text is
  named here by its key.
\<close>

datatype instructions = TableInstructions string | GenericInstructions

definition get_table_specific_instructions :: "string \<Rightarrow> instructions" where
  "get_table_specific_instructions table_number =
     (if table_number \<in> set [''3.2.2.2'', ''3.2.2.3'', ''3.2.1.4'', ''4.2.1.3'', ''5.2.5.3'',
                                ''8.4.4.8.A'', ''8.4.4.8.B'']
      then TableInstructions table_number else GenericInstructions)"

text \<open>
  \<open>generate_repair_prompt\<close> fills a fixed template; a prompt is kept as the values that
  fill it: the vintage, the table number, the raw table, the schema (whose JSON form the
  template shows) and the instructions.
\<close>

record prompt =
  prompt_vintage :: string
  prompt_table_number :: string
  prompt_raw_table :: string
  prompt_schema :: schema
  prompt_instructions :: instructions

definition generate_repair_prompt :: "string \<Rightarrow> schema \<Rightarrow> string \<Rightarrow> string \<Rightarrow> prompt" where
  "generate_repair_prompt raw_table target_schema vintage table_number =
     \<lparr>prompt_vintage = vintage, prompt_table_number = table_number,
      prompt_raw_table = raw_table, prompt_schema = target_schema,
      prompt_instructions = get_table_specific_instructions table_number\<rparr>"

text \<open>The fields of \<open>LLMTableRepairer\<close> that the request carries.\<close>

record LLMTableRepairer =
  model :: string
  temperature :: pyfloat
  timeout :: int

text \<open>
  \<open>LLMTableRepairer.repair_and_normalize\<close>. \<open>generate\<close> is the request to the model
  service followed by \<open>response["response"]\<close>: the text, or the exception raised. Every
  exception raised inside the \<open>try\<close>, also one that leaves \<open>validate_output\<close>, ends in
  the \<open>except\<close> branch. \<open>if validated_data:\<close> tests a model instance or \<open>None\<close>; an instance
  is truthy, since neither Pydantic's \<open>BaseModel\<close> nor a schema class defines \<open>__bool__\<close>
  or \<open>__len__\<close>. The printing under \<open>verbose\<close> is output only and is left out.
\<close>

definition repair_and_normalize ::
  "(string \<Rightarrow> py_exception + json) \<Rightarrow> (schema \<Rightarrow> (string \<times> json) list \<Rightarrow> 'm construction)
   \<Rightarrow> (LLMTableRepairer \<Rightarrow> prompt \<Rightarrow> py_exception + string)
   \<Rightarrow> LLMTableRepairer \<Rightarrow> string \<Rightarrow> string \<Rightarrow> string \<Rightarrow> schema option
   \<Rightarrow> 'm option \<times> error_message list" where
  "repair_and_normalize json_loads construct_model generate self raw_table table_number vintage
       target_schema =
     (let errors = [];
          detected = (case target_schema of
                        None \<Rightarrow> get_schema_for_table table_number
                      | Some given \<Rightarrow> Some given)
      in case detected of
           None \<Rightarrow> (None, errors @ [NoSchemaFound table_number])
         | Some the_schema \<Rightarrow>
             (let prompt = generate_repair_prompt raw_table the_schema vintage table_number
              in case generate self prompt of
                   Inl e \<Rightarrow> (None, errors @ [LLMRequestFailed e])
                 | Inr llm_output \<Rightarrow>
                     (case validate_output json_loads construct_model llm_output the_schema of
                        Inl e \<Rightarrow> (None, errors @ [LLMRequestFailed e])
                      | Inr (Some validated_data, validation_errors) \<Rightarrow> (Some validated_data, [])
                      | Inr (None, validation_errors) \<Rightarrow> (None, errors @ validation_errors))))"

subsection \<open>Sample library behaviour, for the examples\<close>

text \<open>
  A finite table of \<open>json.loads\<close> on the two texts of the examples (every other text is
  reported as malformed), a schema class that finds one error in every dict, and a
  model service that answers every prompt with a fenced rejection.
\<close>

definition sample_json_loads :: "string \<Rightarrow> py_exception + json" where
  "sample_json_loads s =
     (if s = ''{\"error\": \"ambiguous\"}''
      then Inr (JObj [(''error'', JStr ''ambiguous'')])
      else if s = ''{\"error\": \"x\", \"vintage\": \"2020\"}''
      then Inr (JObj [(''error'', JStr ''x''), (''vintage'', JStr ''2020'')])
      else Inl (JSONDecodeError ''Expecting value''))"

definition sample_construct :: "schema \<Rightarrow> (string \<times> json) list \<Rightarrow> unit construction" where
  "sample_construct target_schema items =
     ValidationError [\<lparr>loc = [''assemblies''], msg = ''Field required''\<rparr>]"

definition sample_response :: string where
  "sample_response = fence @ ''json\<newline>{\"error\": \"ambiguous\"}\<newline>'' @ fence"

definition sample_generate :: "LLMTableRepairer \<Rightarrow> prompt \<Rightarrow> py_exception + string" where
  "sample_generate self p = Inr sample_response"

definition sample_repairer :: LLMTableRepairer where
  "sample_repairer = \<lparr>model = ''llama3.1:8b'', temperature = Finite 0, timeout = 30\<rparr>"

section \<open>The metadata extractor (necb\_pdf\_parser.py)\<close>

text \<open>
  \<open>str(n)\<close> for an int, as the f-string of the default table number formats it.
\<close>

definition digit_char :: "nat \<Rightarrow> char" where
  "digit_char d = ''0123456789'' ! d"

function str_nat :: "nat \<Rightarrow> string" where
  "str_nat n =
     (if n < 10 then [digit_char n]
      else str_nat (n div 10) @ [digit_char (n mod 10)])"
  by pat_completeness auto
termination
  by (relation "measure (\<lambda>n. n)") auto

definition str_int :: "int \<Rightarrow> string" where
  "str_int i = (if i < 0 then CHR ''-'' # str_nat (nat (- i)) else str_nat (nat i))"

text \<open>
  The character classes of the patterns: \<open>\d\<close> (on Latin-1 the ten ASCII digits) and
  \<open>[A-Z]\<close>.
\<close>

definition re_digit :: "char \<Rightarrow> bool" where
  "re_digit c = (48 \<le> (of_char c :: nat) \<and> (of_char c :: nat) \<le> 57)"

definition re_upper :: "char \<Rightarrow> bool" where
  "re_upper c = (65 \<le> (of_char c :: nat) \<and> (of_char c :: nat) \<le> 90)"

definition chr_is :: "char \<Rightarrow> char regex" where
  "chr_is c = Sym (\<lambda>x. x = c)"

text \<open>
  The pattern \<^verbatim>\<open>Table\s+([A-Z]?-?\d+(?:\.\d+)*(?:\.[A-Z])?\.(?:\(\d+\))?)\<close>, as the part
  before the group and the group.
\<close>

definition table_prefix :: "char regex" where
  "table_prefix = Cat (Lit ''Table'') (Plus (Sym isspace))"

definition table_group :: "char regex" where
  "table_group =
     Seq [Opt (Sym re_upper),
          Opt (chr_is (CHR ''-'')),
          Plus (Sym re_digit),
          Star (Seq [chr_is (CHR ''.''), Plus (Sym re_digit)]),
          Opt (Seq [chr_is (CHR ''.''), Sym re_upper]),
          chr_is (CHR ''.''),
          Opt (Seq [chr_is (CHR ''(''), Plus (Sym re_digit), chr_is (CHR '')'')])]"

definition table_pattern :: "char regex" where
  "table_pattern = Cat table_prefix table_group"

text \<open>
  For a pattern made of a part \<open>a\<close> and a group \<open>b\<close>: the lengths of the part and of the
  whole match that the engine reports at the start of \<open>s\<close>. The ways to match are tried in
  the same order as for \<open>Cat a b\<close>.
\<close>

definition match_groups :: "'c regex \<Rightarrow> 'c regex \<Rightarrow> 'c list \<Rightarrow> (nat \<times> nat) option" where
  "match_groups a b s =
     (case concat (map (\<lambda>s1. map (\<lambda>s2. (s1, s2)) (rmatch b s1)) (rmatch a s)) of
        [] \<Rightarrow> None
      | (s1, s2) # _ \<Rightarrow> Some (length s - length s1, length s - length s2))"

text \<open>A match object of \<open>table_pattern\<close>: \<open>start()\<close>, \<open>end()\<close> and \<open>group(1)\<close>.\<close>

record re_match =
  m_start :: nat
  m_end :: nat
  group1 :: string

definition table_matches :: "string \<Rightarrow> re_match list" where
  "table_matches page_text =
     map (\<lambda>(i, j).
            \<lparr>m_start = i, m_end = j,
             group1 = (case match_groups table_prefix table_group (drop i page_text) of
                         None \<Rightarrow> []
                       | Some (k, n) \<Rightarrow> take (n - k) (drop (i + k) page_text))\<rparr>)
         (finditer table_pattern page_text)"

text \<open>
  The four end markers: \<^verbatim>\<open>\nForming Part\<close>, \<^verbatim>\<open>\nNotes to Table\<close>,
  \<^verbatim>\<open>\n\d+\.\d+\<close> and \<^verbatim>\<open>\nTable \d+\<close>.
\<close>

definition end_markers :: "char regex list" where
  "end_markers =
     [Lit ''\<newline>Forming Part'',
      Lit ''\<newline>Notes to Table'',
      Seq [chr_is (CHR ''\<newline>''), Plus (Sym re_digit), chr_is (CHR ''.''), Plus (Sym re_digit)],
      Cat (Lit ''\<newline>Table '') (Plus (Sym re_digit))]"

text \<open>\<open>xs[i]\<close> for a list: a negative index counts from the end.\<close>

definition py_index :: "'a list \<Rightarrow> int \<Rightarrow> py_exception + 'a" where
  "py_index xs i =
     (let n = int (length xs); j = (if i < 0 then i + n else i)
      in if 0 \<le> j \<and> j < n then Inr (xs ! nat j) else Inl IndexError)"

text \<open>
  \<open>NECBPDFParser._extract_table_metadata\<close>. The loop over the end markers lowers
  \<open>end_pos\<close> to the nearest marker after the table number.
\<close>

definition extract_table_metadata :: "string \<Rightarrow> int \<Rightarrow> int \<Rightarrow> py_exception + (string \<times> string)" where
  "extract_table_metadata page_text page_num table_idx =
     (let default_number = ''Table-'' @ str_int page_num @ ''-'' @ str_int table_idx;
          default_title = ''Untitled Table'';
          matches = table_matches page_text
      in if table_idx < int (length matches) then
           (case py_index matches table_idx of
              Inl e \<Rightarrow> Inl e
            | Inr m \<Rightarrow>
                let table_number = ''Table '' @ group1 m;
                    start_pos = m_end m;
                    end_pos = fold (\<lambda>marker end_pos.
                                      case search marker (drop start_pos page_text) of
                                        None \<Rightarrow> end_pos
                                      | Some (marker_start, marker_end) \<Rightarrow>
                                          min end_pos (start_pos + marker_start))
                                   end_markers (length page_text);
                    title_text = strip (slice page_text (int start_pos) (int end_pos));
                    title_lines = map strip (filter (\<lambda>line. strip line \<noteq> [])
                                                    (take 3 (split title_text (CHR ''\<newline>''))));
                    title0 = (if title_lines \<noteq> [] then join '' '' title_lines else default_title);
                    title1 = re_sub (Plus (Sym isspace)) '' '' title0;
                    title = (if length title1 > 200 then take 197 title1 @ ''...'' else title1)
                in Inr (table_number, title))
         else Inr (default_number, default_title))"

section \<open>The table cleaner (necb\_pdf\_parser.py)\<close>

subsection \<open>Cell text\<close>













subsection \<open>The cleaner\<close>










section \<open>Properties of the layout extractor's normalisation\<close>

lemma strip_Nil [simp]: "strip [] = []"
  by (simp add: strip_def strip_by_def)

lemma any_cell_pad_row [simp]: "any_cell (pad_row n row) = any_cell row"
  by (auto simp: any_cell_def pad_row_def list_ex_iff)

lemma length_pad_row: "length (pad_row n row) = max n (length row)"
  by (simp add: pad_row_def)

lemma pad_row_same: "n \<le> length row \<Longrightarrow> pad_row n row = row"
  by (simp add: pad_row_def)

lemma fold_max_lower: "n \<le> fold max xs (n::nat)"
proof (induction xs arbitrary: n)
  case Nil
  show ?case by simp
next
  case (Cons x xs)
  have "max x n \<le> fold max xs (max x n)" by (rule Cons.IH)
  then show ?case by simp
qed

lemma fold_max_member: "x \<in> set xs \<Longrightarrow> x \<le> fold max xs (n::nat)"
proof (induction xs arbitrary: n)
  case Nil
  then show ?case by simp
next
  case (Cons y ys)
  show ?case
  proof (cases "x = y")
    case True
    have "max y n \<le> fold max ys (max y n)" by (rule fold_max_lower)
    with True show ?thesis by simp
  next
    case False
    with Cons.prems have "x \<in> set ys" by simp
    then show ?thesis by (simp add: Cons.IH)
  qed
qed

lemma fold_max_const: "\<forall>x\<in>set xs. x = n \<Longrightarrow> fold max xs (n::nat) = n"
  by (induction xs) auto

lemma first_nonblank_row_None:
  "first_nonblank_row rows = None \<Longrightarrow> filter any_cell rows = []"
  by (induction rows) (auto split: if_splits)

lemma first_nonblank_row_Some:
  "first_nonblank_row rows = Some i \<Longrightarrow> i < length rows \<and> any_cell (rows ! i)"
proof (induction rows arbitrary: i)
  case Nil
  then show ?case by simp
next
  case (Cons r rs)
  show ?case
  proof (cases "any_cell r")
    case True
    with Cons.prems show ?thesis by simp
  next
    case False
    with Cons.prems obtain j where "first_nonblank_row rs = Some j" "i = Suc j" by auto
    with Cons.IH show ?thesis by simp
  qed
qed

lemma any_cell_nonempty: "any_cell row \<Longrightarrow> row \<noteq> []"
  by (auto simp: any_cell_def)

lemma filter_drop_Nil: "filter P xs = [] \<Longrightarrow> filter P (drop n xs) = []"
  by (metis append_take_drop_id filter_append append_is_Nil_conv)

text \<open>
  The shape of a normalised table whose input has at least one row: the header \<open>h\<close> that
  was picked and the data rows that were kept, all padded to the width \<open>n\<close>.
\<close>

lemma normalize_structure_shape:
  assumes ne: "cells t \<noteq> []"
  shows "\<exists>h rows n.
     cells (normalize_structure t) = (if h = [] then [] else [pad_row n h]) @ map (pad_row n) rows
   \<and> headers (normalize_structure t) = (if h = [] then h else pad_row n h)
   \<and> page_number (normalize_structure t) = page_number t
   \<and> bboxes (normalize_structure t) = bboxes t
   \<and> length h \<le> n \<and> (\<forall>r\<in>set rows. length r \<le> n \<and> any_cell r)
   \<and> (\<not> any_cell h \<longrightarrow> rows = []) \<and> (rows = [] \<longrightarrow> n = length h)"
proof -
  define idx where "idx = (case first_nonblank_row (cells t) of None \<Rightarrow> 0 | Some i \<Rightarrow> i)"
  define h where "h = (if idx < length (cells t) then cells t ! idx else [])"
  define rows where "rows = filter any_cell (if idx + 1 < length (cells t)
                          then drop (idx + 1) (cells t) else [])"
  define n where "n = (if rows \<noteq> [] then fold max (map length rows) (length h) else length h)"
  have res: "normalize_structure t =
      \<lparr>cells = (if h \<noteq> [] then [pad_row n h] else []) @ map (pad_row n) rows,
       headers = (if h \<noteq> [] then pad_row n h else h),
       page_number = page_number t, bboxes = bboxes t\<rparr>"
    using ne by (simp add: normalize_structure_def Let_def idx_def h_def rows_def n_def)
  have hn: "length h \<le> n" by (simp add: n_def fold_max_lower)
  have rn: "\<forall>r\<in>set rows. length r \<le> n \<and> any_cell r"
  proof
    fix r assume r: "r \<in> set rows"
    then have "rows \<noteq> []" by auto
    moreover have "length r \<in> set (map length rows)" using r by simp
    ultimately have "length r \<le> n" by (simp add: n_def fold_max_member)
    moreover have "any_cell r" using r by (simp add: rows_def split: if_splits)
    ultimately show "length r \<le> n \<and> any_cell r" by simp
  qed
  have blank: "\<not> any_cell h \<longrightarrow> rows = []"
  proof (cases "first_nonblank_row (cells t)")
    case None
    then have "filter any_cell (cells t) = []" by (rule first_nonblank_row_None)
    then have "filter any_cell (drop (idx + 1) (cells t)) = []" by (rule filter_drop_Nil)
    then show ?thesis by (simp add: rows_def)
  next
    case (Some i)
    then have "i < length (cells t) \<and> any_cell (cells t ! i)" by (rule first_nonblank_row_Some)
    moreover have "idx = i" using Some by (simp add: idx_def)
    ultimately show ?thesis by (simp add: h_def)
  qed
  have last: "rows = [] \<longrightarrow> n = length h" by (simp add: n_def)
  show ?thesis
    apply (rule exI [of _ h], rule exI [of _ rows], rule exI [of _ n])
    using res hn rn blank last by simp
qed

text \<open>A table that already has this shape is left as it is.\<close>

lemma normalize_structure_fixed:
  assumes c: "cells r = h # rest" and hd: "headers r = h" and hne: "h \<noteq> []"
    and len: "\<forall>row\<in>set rest. length row = length h \<and> any_cell row"
    and blank: "\<not> any_cell h \<longrightarrow> rest = []"
  shows "normalize_structure r = r"
proof -
  have idx: "(case first_nonblank_row (cells r) of None \<Rightarrow> 0 | Some i \<Rightarrow> i) = 0"
  proof (cases "any_cell h")
    case True
    then show ?thesis by (simp add: c)
  next
    case False
    with blank have "rest = []" by simp
    with False show ?thesis by (simp add: c)
  qed
  have f: "filter any_cell rest = rest" using len by (simp add: filter_id_conv)
  have m: "rest \<noteq> [] \<Longrightarrow> fold max (map length rest) (length h) = length h"
    using len by (simp add: fold_max_const)
  have p: "map (pad_row (length h)) rest = rest"
    using len by (simp add: map_idI pad_row_same)
  have "normalize_structure r = \<lparr>cells = h # rest, headers = h,
       page_number = page_number r, bboxes = bboxes r\<rparr>"
    unfolding normalize_structure_def idx
    using hne f m p by (cases "rest = []") (simp_all add: c Let_def pad_row_same)
  also have "\<dots> = r" using c hd by simp
  finally show ?thesis .
qed

text \<open>
  Claim C2. For every \<open>MarkerTable\<close>, every row of the cells that \<open>normalize_structure\<close>
  returns is as long as the header row it returns: the returned grid is rectangular.
  This covers leading empty rows, rows of different lengths, rows longer than the header
  and grids whose rows are all empty.
\<close>

theorem normalize_structure_rectangular:
  "\<forall>row \<in> set (cells (normalize_structure t)).
     length row = length (headers (normalize_structure t))"
proof (cases "cells t = []")
  case True
  then show ?thesis by (simp add: normalize_structure_def)
next
  case False
  from normalize_structure_shape [OF False] obtain h rows n where
    c: "cells (normalize_structure t) = (if h = [] then [] else [pad_row n h]) @ map (pad_row n) rows"
    and hd: "headers (normalize_structure t) = (if h = [] then h else pad_row n h)"
    and hn: "length h \<le> n" and rn: "\<forall>r\<in>set rows. length r \<le> n \<and> any_cell r"
    and blank: "\<not> any_cell h \<longrightarrow> rows = []"
    by blast
  show ?thesis
  proof (cases "h = []")
    case True
    then have "\<not> any_cell h" by (auto dest: any_cell_nonempty)
    with blank have "rows = []" by simp
    with True c show ?thesis by simp
  next
    case False
    have "length (pad_row n h) = n" using hn by (simp add: length_pad_row)
    moreover have "\<forall>r\<in>set rows. length (pad_row n r) = n"
      using rn by (simp add: length_pad_row)
    ultimately show ?thesis using False c hd by auto
  qed
qed

text \<open>
  The theorem at a grid with a blank first row, a header of two cells, a blank row and a
  data row of three cells: the header is padded to three cells.
\<close>

theorem normalize_structure_rectangular_witness:
  "cells (normalize_structure
      \<lparr>cells = [[[], '' ''], [''Assembly'', ''Zone 4''], [[], []], [''Walls'', ''0.315'', ''0.278'']],
       headers = [], page_number = 73, bboxes = None\<rparr>)
     = [[''Assembly'', ''Zone 4'', []], [''Walls'', ''0.315'', ''0.278'']]
 \<and> headers (normalize_structure
      \<lparr>cells = [[[], '' ''], [''Assembly'', ''Zone 4''], [[], []], [''Walls'', ''0.315'', ''0.278'']],
       headers = [], page_number = 73, bboxes = None\<rparr>)
     = [''Assembly'', ''Zone 4'', []]
 \<and> list_all (\<lambda>row. length row = 3) (cells (normalize_structure
      \<lparr>cells = [[[], '' ''], [''Assembly'', ''Zone 4''], [[], []], [''Walls'', ''0.315'', ''0.278'']],
       headers = [], page_number = 73, bboxes = None\<rparr>))"
  using normalize_structure_rectangular [of
      "\<lparr>cells = [[[], '' ''], [''Assembly'', ''Zone 4''], [[], []], [''Walls'', ''0.315'', ''0.278'']],
       headers = [], page_number = 73, bboxes = None\<rparr>"]
  by (simp add: normalize_structure_def Let_def any_cell_def strip_def strip_by_def isspace_def
        pad_row_def)

text \<open>
  Claim C10. \<open>normalize_structure\<close> is idempotent: normalising a normalised table gives
  the same table, in every field (cells, headers, page number and bounding boxes).
\<close>

theorem normalize_structure_idempotent:
  "normalize_structure (normalize_structure t) = normalize_structure t"
proof (cases "cells t = []")
  case True
  then show ?thesis by (simp add: normalize_structure_def)
next
  case False
  from normalize_structure_shape [OF False] obtain h rows n where
    c: "cells (normalize_structure t) = (if h = [] then [] else [pad_row n h]) @ map (pad_row n) rows"
    and hd: "headers (normalize_structure t) = (if h = [] then h else pad_row n h)"
    and hn: "length h \<le> n" and rn: "\<forall>r\<in>set rows. length r \<le> n \<and> any_cell r"
    and blank: "\<not> any_cell h \<longrightarrow> rows = []"
    by blast
  show ?thesis
  proof (cases "h = []")
    case True
    then have "\<not> any_cell h" by (auto dest: any_cell_nonempty)
    with blank have "rows = []" by simp
    with True c have "cells (normalize_structure t) = []" by simp
    then show ?thesis by (simp add: normalize_structure_def [of "normalize_structure t"])
  next
    case False
    have lh: "length (pad_row n h) = n" using hn by (simp add: length_pad_row)
    show ?thesis
    proof (rule normalize_structure_fixed [where h = "pad_row n h" and rest = "map (pad_row n) rows"])
      show "cells (normalize_structure t) = pad_row n h # map (pad_row n) rows"
        using False c by simp
      show "headers (normalize_structure t) = pad_row n h" using False hd by simp
      show "pad_row n h \<noteq> []" using False by (simp add: pad_row_def)
      show "\<forall>row\<in>set (map (pad_row n) rows). length row = length (pad_row n h) \<and> any_cell row"
        using rn lh by (simp add: length_pad_row)
      show "\<not> any_cell (pad_row n h) \<longrightarrow> map (pad_row n) rows = []"
        using blank by simp
    qed
  qed
qed


section \<open>Properties of the fast extractor's confidence and of the validator\<close>

lemma fge_not_flt: "fge x y \<Longrightarrow> \<not> flt x y"
  by (cases x; cases y) simp_all

text \<open>
  Claim C3, as the code has it. The claim as written (columns, rows and confidence at
  their minimums imply \<open>passed\<close>) leaves out the validator's fourth check: the text of
  the table, stripped, must start with a bar. With that added, \<open>validate_extraction\<close>
  returns \<open>passed = True\<close> and no error.
\<close>

theorem validate_extraction_passes:
  assumes "min_cols \<le> estimated_cols table" and "min_rows \<le> estimated_rows table"
    and "fge (confidence table) min_confidence"
    and "startswith (strip (markdown_text table)) ''|''"
  shows "passed (validate_extraction table min_rows min_cols min_confidence)
       \<and> errors (validate_extraction table min_rows min_cols min_confidence) = []"
  using assms by (simp add: validate_extraction_def Let_def fge_not_flt)

text \<open>
  The theorem at the example of the specification: a header and one row of four columns,
  confidence 0.95, and the thresholds 1 row, 4 columns, 0.8.
\<close>

theorem validate_extraction_passes_witness:
  "passed (validate_extraction
      \<lparr>markdown_text = ''| Assembly | Zone4 | Zone5 | Zone6 |\<newline>| Walls | 0.315 | 0.278 | 0.247 |'',
       estimated_rows = 1, estimated_cols = 4, confidence = Finite (95 / 100),
       md_page_number = 72\<rparr> 1 4 (Finite (8 / 10)))
 \<and> errors (validate_extraction
      \<lparr>markdown_text = ''| Assembly | Zone4 | Zone5 | Zone6 |\<newline>| Walls | 0.315 | 0.278 | 0.247 |'',
       estimated_rows = 1, estimated_cols = 4, confidence = Finite (95 / 100),
       md_page_number = 72\<rparr> 1 4 (Finite (8 / 10))) = []"
  by (rule validate_extraction_passes) (simp_all add: strip_def strip_by_def isspace_def)

text \<open>
  The claim as written fails: a table with two columns, one row and confidence 1.0 whose
  text does not start with a bar meets the three thresholds and is rejected as malformed.
\<close>

theorem validate_extraction_thresholds_counterexample:
  "2 \<le> estimated_cols \<lparr>markdown_text = ''Walls 0.315'', estimated_rows = 1,
          estimated_cols = 2, confidence = Finite 1, md_page_number = 0\<rparr>
 \<and> 1 \<le> estimated_rows \<lparr>markdown_text = ''Walls 0.315'', estimated_rows = 1,
          estimated_cols = 2, confidence = Finite 1, md_page_number = 0\<rparr>
 \<and> fge (confidence \<lparr>markdown_text = ''Walls 0.315'', estimated_rows = 1,
          estimated_cols = 2, confidence = Finite 1, md_page_number = 0\<rparr>) (Finite (8 / 10))
 \<and> \<not> passed (validate_extraction \<lparr>markdown_text = ''Walls 0.315'', estimated_rows = 1,
          estimated_cols = 2, confidence = Finite 1, md_page_number = 0\<rparr> 1 2 (Finite (8 / 10)))
 \<and> errors (validate_extraction \<lparr>markdown_text = ''Walls 0.315'', estimated_rows = 1,
          estimated_cols = 2, confidence = Finite 1, md_page_number = 0\<rparr> 1 2 (Finite (8 / 10)))
      = [MalformedTable]"
  by (simp add: validate_extraction_def Let_def strip_def strip_by_def isspace_def)

text \<open>
  Claim C5. For every table and all thresholds, \<open>passed\<close> is true exactly when the error
  list is empty. The message about the ratio of empty cells is never an error: it is the
  only possible warning, and \<open>passed\<close> is decided by the four other checks alone.
\<close>

theorem validate_extraction_passed_iff:
  "(passed (validate_extraction table min_rows min_cols min_confidence)
      \<longleftrightarrow> errors (validate_extraction table min_rows min_cols min_confidence) = [])
 \<and> (\<forall>x. HighEmptyCellRatio x \<notin> set (errors (validate_extraction table min_rows min_cols min_confidence)))
 \<and> (passed (validate_extraction table min_rows min_cols min_confidence)
      \<longleftrightarrow> \<not> estimated_cols table < min_cols \<and> \<not> estimated_rows table < min_rows
          \<and> \<not> flt (confidence table) min_confidence
          \<and> startswith (strip (markdown_text table)) ''|'')
 \<and> warnings (validate_extraction table min_rows min_cols min_confidence)
      = (if fgt (estimate_empty_ratio (markdown_text table)) (Finite (2 / 10))
         then [HighEmptyCellRatio (estimate_empty_ratio (markdown_text table))] else [])"
  by (simp add: validate_extraction_def Let_def)

text \<open>
  An instance: one of the three cells of the row is empty, the ratio is above 20 percent,
  the warning is raised and the table passes.
\<close>

theorem validate_extraction_passed_iff_witness:
  "estimate_empty_ratio ''| a |  | b |'' = Finite (1 / 3)
 \<and> passed (validate_extraction \<lparr>markdown_text = ''| a |  | b |'', estimated_rows = 1,
      estimated_cols = 3, confidence = Finite 1, md_page_number = 0\<rparr> 1 2 (Finite (8 / 10)))
 \<and> warnings (validate_extraction \<lparr>markdown_text = ''| a |  | b |'', estimated_rows = 1,
      estimated_cols = 3, confidence = Finite 1, md_page_number = 0\<rparr> 1 2 (Finite (8 / 10)))
     = [HighEmptyCellRatio (Finite (1 / 3))]"
proof -
  have r: "estimate_empty_ratio ''| a |  | b |'' = Finite (1 / 3)"
    by (simp add: estimate_empty_ratio_def split_def strip_def strip_by_def isspace_def
          count_empty_cells_def finditer_def empty_cell_pattern_def match_at_def count_bars_def
          ratio_def)
  have s: "startswith (strip ''| a |  | b |'') ''|''"
    by (simp add: strip_def strip_by_def isspace_def)
  note all = validate_extraction_passed_iff [of
        "\<lparr>markdown_text = ''| a |  | b |'', estimated_rows = 1, estimated_cols = 3,
          confidence = Finite 1, md_page_number = 0\<rparr>" 1 2 "Finite (8 / 10)"]
  have p: "passed (validate_extraction \<lparr>markdown_text = ''| a |  | b |'', estimated_rows = 1,
      estimated_cols = 3, confidence = Finite 1, md_page_number = 0\<rparr> 1 2 (Finite (8 / 10)))"
    unfolding all [THEN conjunct2, THEN conjunct2, THEN conjunct1] using s by simp
  have w: "warnings (validate_extraction \<lparr>markdown_text = ''| a |  | b |'', estimated_rows = 1,
      estimated_cols = 3, confidence = Finite 1, md_page_number = 0\<rparr> 1 2 (Finite (8 / 10)))
     = [HighEmptyCellRatio (Finite (1 / 3))]"
    unfolding all [THEN conjunct2, THEN conjunct2, THEN conjunct2] using r by (simp add: fgt_def)
  from r p w show ?thesis by blast
qed

text \<open>
  \<open>_parse_markdown_table\<close> calls \<open>_calculate_confidence\<close> on its data rows with the
  column count of the first of them.
\<close>

lemma parse_markdown_table_confidence:
  assumes "parse_markdown_table lines page_num = Some t"
  shows "\<exists>first_row more_rows.
           filter (\<lambda>line. startswith (strip line) ''|'' \<and> \<not> is_separator line) lines
             = first_row # more_rows
         \<and> confidence t = calculate_confidence (first_row # more_rows) (count_bars first_row - 1)"
  using assms
  by (auto simp: parse_markdown_table_def Let_def split: if_splits list.splits)






section \<open>Properties of the schema registry\<close>

lemma registry_key_lookup:
  "get_schema_for_table ''3.2.2.2'' = Some EnvelopeTable"
  "get_schema_for_table ''3.2.2.3'' = Some EnvelopeTable"
  "get_schema_for_table ''3.2.1.4'' = Some FDWRTable"
  "get_schema_for_table ''4.2.1.3'' = Some LightingTable"
  "get_schema_for_table ''5.2.5.3'' = Some PipingInsulationTable"
  "get_schema_for_table ''8.4.4.8.A'' = Some HVACTable"
  "get_schema_for_table ''8.4.4.8.B'' = Some HVACTable"
  by (simp_all add: SCHEMA_REGISTRY_def get_schema_for_table_def strip_def strip_by_def isspace_def)

lemma registry_table_prefix:
  "get_schema_for_table ''Table 3.2.2.2'' = Some EnvelopeTable"
  "get_schema_for_table ''Table 3.2.2.3'' = Some EnvelopeTable"
  "get_schema_for_table ''Table 3.2.1.4'' = Some FDWRTable"
  "get_schema_for_table ''Table 4.2.1.3'' = Some LightingTable"
  "get_schema_for_table ''Table 5.2.5.3'' = Some PipingInsulationTable"
  "get_schema_for_table ''Table 8.4.4.8.A'' = Some HVACTable"
  "get_schema_for_table ''Table 8.4.4.8.B'' = Some HVACTable"
  by (simp_all add: SCHEMA_REGISTRY_def get_schema_for_table_def strip_def strip_by_def isspace_def)

lemma registry_appendix_prefix:
  "get_schema_for_table ''A-3.2.2.2'' = Some EnvelopeTable"
  "get_schema_for_table ''A-3.2.2.3'' = Some EnvelopeTable"
  "get_schema_for_table ''A-3.2.1.4'' = Some FDWRTable"
  "get_schema_for_table ''A-4.2.1.3'' = Some LightingTable"
  "get_schema_for_table ''A-5.2.5.3'' = Some PipingInsulationTable"
  "get_schema_for_table ''A-8.4.4.8.A'' = Some HVACTable"
  "get_schema_for_table ''A-8.4.4.8.B'' = Some HVACTable"
  by (simp_all add: SCHEMA_REGISTRY_def get_schema_for_table_def strip_def strip_by_def isspace_def)

lemma registry_keys:
  "map fst SCHEMA_REGISTRY =
     [''3.2.2.2'', ''3.2.2.3'', ''3.2.1.4'', ''4.2.1.3'', ''5.2.5.3'', ''8.4.4.8.A'', ''8.4.4.8.B'']"
  by (simp add: SCHEMA_REGISTRY_def)

text \<open>
  Claim C7. For every key \<open>N\<close> of the registry, \<open>get_schema_for_table\<close> finds a schema for
  \<open>N\<close> and the same schema for \<open>N\<close> with the prefix \<open>Table\<close> and a space, and for \<open>N\<close> with
  the prefix \<open>A-\<close>. For every table number whose normalised form is not a key, the
  lookup returns \<open>None\<close>; the function is total, so it raises nothing.
\<close>

theorem get_schema_for_table_prefix_insensitive:
  "(\<forall>N \<in> set (map fst SCHEMA_REGISTRY).
       get_schema_for_table N \<noteq> None
     \<and> get_schema_for_table (''Table '' @ N) = get_schema_for_table N
     \<and> get_schema_for_table (''A-'' @ N) = get_schema_for_table N)
 \<and> (\<forall>t. strip (replace (replace t ''Table '' []) ''A-'' []) \<notin> set (map fst SCHEMA_REGISTRY)
        \<longrightarrow> get_schema_for_table t = None)"
proof
  show "\<forall>N \<in> set (map fst SCHEMA_REGISTRY).
       get_schema_for_table N \<noteq> None
     \<and> get_schema_for_table (''Table '' @ N) = get_schema_for_table N
     \<and> get_schema_for_table (''A-'' @ N) = get_schema_for_table N"
    unfolding registry_keys
    using registry_key_lookup registry_table_prefix registry_appendix_prefix
    by simp
next
  show "\<forall>t. strip (replace (replace t ''Table '' []) ''A-'' []) \<notin> set (map fst SCHEMA_REGISTRY)
        \<longrightarrow> get_schema_for_table t = None"
    by (simp add: get_schema_for_table_def Let_def map_of_eq_None_iff)
qed

text \<open>The theorem at the key 3.2.2.2 and at a table number that has no schema.\<close>

theorem get_schema_for_table_prefix_insensitive_witness:
  "get_schema_for_table ''3.2.2.2'' = Some EnvelopeTable
 \<and> get_schema_for_table ''Table 3.2.2.2'' = Some EnvelopeTable
 \<and> get_schema_for_table ''A-3.2.2.2'' = Some EnvelopeTable
 \<and> get_schema_for_table ''Table 9.9.9.9'' = None"
proof -
  have key: "''3.2.2.2'' \<in> set (map fst SCHEMA_REGISTRY)"
    by (simp add: SCHEMA_REGISTRY_def)
  have other: "strip (replace (replace ''Table 9.9.9.9'' ''Table '' []) ''A-'' [])
                 \<notin> set (map fst SCHEMA_REGISTRY)"
    by (simp add: SCHEMA_REGISTRY_def strip_def strip_by_def isspace_def)
  have here: "get_schema_for_table ''3.2.2.2'' = Some EnvelopeTable"
    by (simp add: SCHEMA_REGISTRY_def get_schema_for_table_def strip_def strip_by_def isspace_def)
  from get_schema_for_table_prefix_insensitive key other here show ?thesis
    by (metis append_Cons append_Nil)
qed


section \<open>Properties of the repair engine\<close>

lemma is_error_response_sole_key:
  assumes "set (map fst items) = {''error''}"
  shows "is_error_response (JObj items) = Inr True"
proof -
  have "length (remdups (map fst items)) = card (set (map fst items))"
    by (rule length_remdups_card_conv)
  also have "\<dots> = 1" unfolding assms by simp
  finally have one: "length (remdups (map fst items)) = 1" .
  have "''error'' \<in> set (map fst items)" unfolding assms by simp
  with one show ?thesis by (simp add: is_error_response_def)
qed

lemma get_error_item_present:
  assumes "''error'' \<in> set (map fst items)"
  shows "\<exists>reason. get_error_item (JObj items) = Inr reason \<and> (''error'', reason) \<in> set items"
proof -
  have "''error'' \<in> fst ` set (rev items)" using assms by simp
  then obtain v where v: "map_of (rev items) ''error'' = Some v"
    by (metis map_of_eq_None_iff not_Some_eq)
  then have "(''error'', v) \<in> set (rev items)" by (rule map_of_SomeD)
  with v show ?thesis by simp
qed

lemma is_error_response_other_key:
  assumes "k \<in> set (map fst items)" and "k \<noteq> ''error''"
  shows "is_error_response (JObj items) = Inr False"
proof (cases "''error'' \<in> set (map fst items)")
  case False
  then show ?thesis by (simp add: is_error_response_def)
next
  case True
  have sub: "{k, ''error''} \<subseteq> set (map fst items)" using assms(1) True by blast
  have "card {k, ''error''} \<le> card (set (map fst items))"
    by (rule card_mono [OF _ sub]) simp
  moreover have "card {k, ''error''} = 2" using assms(2) by simp
  ultimately have "length (remdups (map fst items)) \<noteq> 1"
    unfolding length_remdups_card_conv by linarith
  with True show ?thesis by (simp add: is_error_response_def)
qed

lemma sample_response_json:
  "extract_json_from_markdown sample_response = ''{\"error\": \"ambiguous\"}''"
  by (simp add: sample_response_def extract_json_from_markdown_def fence_def strip_def
        strip_by_def isspace_def find_def rfind_def slice_def Let_def)

lemma plain_response_json:
  "extract_json_from_markdown ''{\"error\": \"x\", \"vintage\": \"2020\"}''
     = ''{\"error\": \"x\", \"vintage\": \"2020\"}''"
  by (simp add: extract_json_from_markdown_def fence_def strip_def strip_by_def isspace_def)

text \<open>
  Claim C8. Let the response, after \<open>_extract_json_from_markdown\<close> has removed a code
  fence around it, parse as a dict. If \<open>error\<close> is its only key, \<open>validate_output\<close>
  returns no data and the one error that reports the model's rejection with the value
  under that key, whatever the schema and whatever the schema's constructor would do:
  the constructor is not consulted. If the dict has \<open>error\<close> and another key \<open>k\<close>, the
  result is the one of schema validation on the dict.
\<close>

theorem validate_output_rejection:
  "(json_loads (extract_json_from_markdown llm_output) = Inr (JObj items)
      \<and> set (map fst items) = {''error''}
    \<longrightarrow> (\<exists>reason. (''error'', reason) \<in> set items
          \<and> (\<forall>construct_model target_schema.
                validate_output json_loads construct_model llm_output target_schema
                  = Inr (None, [LLMRejectedInput reason]))))
 \<and> (json_loads (extract_json_from_markdown llm_output) = Inr (JObj items)
      \<and> ''error'' \<in> set (map fst items) \<and> k \<in> set (map fst items) \<and> k \<noteq> ''error''
    \<longrightarrow> validate_output json_loads construct_model llm_output target_schema
          = (case construct_model target_schema items of
               Validated validated_model \<Rightarrow> Inr (Some validated_model, [])
             | ValidationError details \<Rightarrow>
                 Inr (None, map (\<lambda>d. ValidationErrorIn (join '' -> '' (loc d)) (msg d)) details)
             | ConstructorRaised e \<Rightarrow> Inr (None, [ValidationFailed e])))"
proof (intro conjI impI)
  assume a: "json_loads (extract_json_from_markdown llm_output) = Inr (JObj items)
      \<and> set (map fst items) = {''error''}"
  then have "''error'' \<in> set (map fst items)" by simp
  from get_error_item_present [OF this] obtain reason where
    r: "get_error_item (JObj items) = Inr reason" "(''error'', reason) \<in> set items" by blast
  have e: "is_error_response (JObj items) = Inr True"
    using a by (simp add: is_error_response_sole_key)
  have "\<forall>construct_model target_schema.
          validate_output json_loads construct_model llm_output target_schema
            = Inr (None, [LLMRejectedInput reason])"
    using a e r by (simp add: validate_output_def)
  with r show "\<exists>reason. (''error'', reason) \<in> set items
          \<and> (\<forall>construct_model target_schema.
                validate_output json_loads construct_model llm_output target_schema
                  = Inr (None, [LLMRejectedInput reason]))" by blast
next
  assume a: "json_loads (extract_json_from_markdown llm_output) = Inr (JObj items)
      \<and> ''error'' \<in> set (map fst items) \<and> k \<in> set (map fst items) \<and> k \<noteq> ''error''"
  then have "is_error_response (JObj items) = Inr False"
    using is_error_response_other_key [of k items] by simp
  with a show "validate_output json_loads construct_model llm_output target_schema
          = (case construct_model target_schema items of
               Validated validated_model \<Rightarrow> Inr (Some validated_model, [])
             | ValidationError details \<Rightarrow>
                 Inr (None, map (\<lambda>d. ValidationErrorIn (join '' -> '' (loc d)) (msg d)) details)
             | ConstructorRaised e \<Rightarrow> Inr (None, [ValidationFailed e]))"
    by (simp add: validate_output_def)
qed

text \<open>
  The theorem at a fenced rejection and at a dict with \<open>error\<close> and \<open>vintage\<close>, which
  goes to the schema.
\<close>

theorem validate_output_rejection_witness:
  "sample_json_loads (extract_json_from_markdown sample_response)
     = Inr (JObj [(''error'', JStr ''ambiguous'')])
 \<and> set (map fst [(''error'', JStr ''ambiguous'')]) = {''error''}
 \<and> validate_output sample_json_loads sample_construct sample_response EnvelopeTable
     = Inr (None, [LLMRejectedInput (JStr ''ambiguous'')])
 \<and> sample_json_loads (extract_json_from_markdown ''{\"error\": \"x\", \"vintage\": \"2020\"}'')
     = Inr (JObj [(''error'', JStr ''x''), (''vintage'', JStr ''2020'')])
 \<and> validate_output sample_json_loads sample_construct
        ''{\"error\": \"x\", \"vintage\": \"2020\"}'' EnvelopeTable
     = Inr (None, [ValidationErrorIn ''assemblies'' ''Field required''])"
proof -
  have l1: "sample_json_loads (extract_json_from_markdown sample_response)
             = Inr (JObj [(''error'', JStr ''ambiguous'')])"
    unfolding sample_response_json by (simp add: sample_json_loads_def)
  have l2: "sample_json_loads (extract_json_from_markdown ''{\"error\": \"x\", \"vintage\": \"2020\"}'')
           = Inr (JObj [(''error'', JStr ''x''), (''vintage'', JStr ''2020'')])"
    unfolding plain_response_json by (simp add: sample_json_loads_def)
  have k1: "set (map fst [(''error'', JStr ''ambiguous'')]) = {''error''}" by simp
  have r1: "validate_output sample_json_loads sample_construct sample_response EnvelopeTable
     = Inr (None, [LLMRejectedInput (JStr ''ambiguous'')])"
    using validate_output_rejection [where json_loads = sample_json_loads
        and llm_output = sample_response and items = "[(''error'', JStr ''ambiguous'')]"] l1 k1
    by auto
  have r2: "validate_output sample_json_loads sample_construct
        ''{\"error\": \"x\", \"vintage\": \"2020\"}'' EnvelopeTable
     = Inr (None, [ValidationErrorIn ''assemblies'' ''Field required''])"
    using validate_output_rejection [where json_loads = sample_json_loads
        and llm_output = "''{\"error\": \"x\", \"vintage\": \"2020\"}''"
        and items = "[(''error'', JStr ''x''), (''vintage'', JStr ''2020'')]"
        and k = "''vintage''" and construct_model = sample_construct and target_schema = EnvelopeTable]
      l2
    by (simp add: sample_construct_def)
  from l1 k1 r1 l2 r2 show ?thesis by blast
qed

lemma validate_output_cases:
  assumes out: "validate_output json_loads construct_model llm_output target_schema = Inr (d, errs)"
  shows "(d = None \<and> errs \<noteq> [])
       \<or> (\<exists>items m. construct_model target_schema items = Validated m \<and> d = Some m \<and> errs = [])
       \<or> (\<exists>items details. construct_model target_schema items = ValidationError details \<and> d = None
                   \<and> length errs = length details)"
proof (cases "json_loads (extract_json_from_markdown llm_output)")
  case (Inl e)
  with out show ?thesis by (cases e) (auto simp: validate_output_def)
next
  case (Inr data)
  show ?thesis
  proof (cases "is_error_response data")
    case (Inl e)
    with Inr out show ?thesis by (simp add: validate_output_def)
  next
    case resp: (Inr b)
    show ?thesis
    proof (cases b)
      case True
      with Inr resp out show ?thesis
        by (cases "get_error_item data") (auto simp: validate_output_def)
    next
      case False
      show ?thesis
      proof (cases data)
        case (JObj items)
        with Inr resp False out show ?thesis
          by (cases "construct_model target_schema items") (auto simp: validate_output_def)
      qed (use Inr resp False out in \<open>auto simp: validate_output_def\<close>)
    qed
  qed
qed

lemma validate_output_errors_nonempty:
  assumes lib: "\<forall>s items details. construct_model s items = ValidationError details \<longrightarrow> details \<noteq> []"
    and out: "validate_output json_loads construct_model llm_output target_schema = Inr (None, errs)"
  shows "errs \<noteq> []"
proof -
  have "errs \<noteq> [] \<or> (\<exists>items details. construct_model target_schema items = ValidationError details
           \<and> length errs = length details)"
    using validate_output_cases [OF out] by blast
  then show ?thesis
  proof
    assume "errs \<noteq> []" then show ?thesis .
  next
    assume "\<exists>items details. construct_model target_schema items = ValidationError details
           \<and> length errs = length details"
    then obtain items details where
      d: "construct_model target_schema items = ValidationError details"
      and l: "length errs = length details" by blast
    from lib d have "details \<noteq> []" by blast
    with l show ?thesis by auto
  qed
qed

text \<open>
  Claim C1. For every raw table, table number, vintage and optional schema,
  \<open>repair_and_normalize\<close> returns either data and an empty error list, or no data and a
  non-empty error list, on every path: no schema, a failed request, a text that is not
  JSON, a rejection by the model, a failed schema validation, and success. The one fact
  used about Pydantic is that a \<open>ValidationError\<close> reports at least one error.
\<close>

theorem repair_and_normalize_exclusive:
  assumes lib: "\<forall>s items details. construct_model s items = ValidationError details \<longrightarrow> details \<noteq> []"
  shows "(fst (repair_and_normalize json_loads construct_model generate self raw_table table_number vintage target_schema) \<noteq> None
          \<and> snd (repair_and_normalize json_loads construct_model generate self raw_table table_number vintage target_schema) = [])
       \<or> (fst (repair_and_normalize json_loads construct_model generate self raw_table table_number vintage target_schema) = None
          \<and> snd (repair_and_normalize json_loads construct_model generate self raw_table table_number vintage target_schema) \<noteq> [])"
proof -
  let ?detected = "case target_schema of None \<Rightarrow> get_schema_for_table table_number | Some given \<Rightarrow> Some given"
  show ?thesis
  proof (cases ?detected)
    case None
    then show ?thesis by (simp add: repair_and_normalize_def)
  next
    case (Some the_schema)
    let ?p = "generate_repair_prompt raw_table the_schema vintage table_number"
    show ?thesis
    proof (cases "generate self ?p")
      case (Inl e)
      with Some show ?thesis by (simp add: repair_and_normalize_def)
    next
      case (Inr llm_output)
      show ?thesis
      proof (cases "validate_output json_loads construct_model llm_output the_schema")
        case (Inl e)
        with Some Inr show ?thesis by (simp add: repair_and_normalize_def)
      next
        case out: (Inr res)
        obtain d errs where res: "res = (d, errs)" by (cases res)
        show ?thesis
        proof (cases d)
          case None
          with out res have "errs \<noteq> []"
            using validate_output_errors_nonempty [OF lib] by blast
          with Some Inr out res None show ?thesis by (simp add: repair_and_normalize_def)
        next
          case m: (Some m)
          with Some Inr out res show ?thesis
            by (simp add: repair_and_normalize_def)
        qed
      qed
    qed
  qed
qed

text \<open>
  The theorem with the sample library: a rejection by the model for a table that has a
  schema, and a table number without schema.
\<close>

theorem repair_and_normalize_exclusive_witness:
  "repair_and_normalize sample_json_loads sample_construct sample_generate sample_repairer
      ''| Walls | 0.315 |'' ''3.2.2.2'' ''2020'' None
     = (None, [LLMRejectedInput (JStr ''ambiguous'')])
 \<and> repair_and_normalize sample_json_loads sample_construct sample_generate sample_repairer
      ''| Walls | 0.315 |'' ''9.9.9.9'' ''2020'' None
     = (None, [NoSchemaFound ''9.9.9.9''])"
proof -
  have lib: "\<forall>s items details. sample_construct s items = ValidationError details \<longrightarrow> details \<noteq> []"
    by (simp add: sample_construct_def)
  have v: "validate_output sample_json_loads sample_construct sample_response EnvelopeTable
     = Inr (None, [LLMRejectedInput (JStr ''ambiguous'')])"
    unfolding validate_output_def sample_response_json
    by (simp add: sample_json_loads_def is_error_response_def)
  have s1: "get_schema_for_table ''3.2.2.2'' = Some EnvelopeTable"
    by (simp add: SCHEMA_REGISTRY_def get_schema_for_table_def strip_def strip_by_def isspace_def)
  have s2: "get_schema_for_table ''9.9.9.9'' = None"
    by (simp add: SCHEMA_REGISTRY_def get_schema_for_table_def strip_def strip_by_def isspace_def)
  show ?thesis
    using repair_and_normalize_exclusive [OF lib, of sample_json_loads sample_generate sample_repairer
        "''| Walls | 0.315 |''" "''3.2.2.2''" "''2020''" None]
    by (simp add: repair_and_normalize_def s1 s2 v sample_generate_def)
qed


section \<open>Properties of the metadata extractor\<close>

text \<open>
  The group of a match is read with \<open>match_groups\<close>; it reports a match exactly where the
  whole pattern does, and the same end.
\<close>

lemma snd_paired_matches:
  "map snd (concat (map (\<lambda>s1. map (\<lambda>s2. (s1, s2)) (rmatch b s1)) xs))
     = concat (map (rmatch b) xs)"
  by (induction xs) (simp_all add: comp_def)

lemma match_groups_agrees:
  "map_option snd (match_groups a b s) = match_at (Cat a b) s"
proof -
  define pairs where
    "pairs = concat (map (\<lambda>s1. map (\<lambda>s2. (s1, s2)) (rmatch b s1)) (rmatch a s))"
  have mg: "match_groups a b s =
      (case pairs of [] \<Rightarrow> None
       | (s1, s2) # _ \<Rightarrow> Some (length s - length s1, length s - length s2))"
    by (simp add: match_groups_def pairs_def)
  have "rmatch (Cat a b) s = map snd pairs"
    unfolding pairs_def snd_paired_matches by simp
  then have ma: "match_at (Cat a b) s =
      (case map snd pairs of [] \<Rightarrow> None | rest # _ \<Rightarrow> Some (length s - length rest))"
    by (simp only: match_at_def)
  show ?thesis
  proof (cases pairs)
    case Nil
    then show ?thesis by (simp add: mg ma)
  next
    case (Cons p ps)
    then show ?thesis by (cases p) (simp add: mg ma)
  qed
qed

text \<open>The pattern on two table numbers of the source's docstring.\<close>

lemma table_matches_example:
  "map (\<lambda>m. (m_start m, m_end m, group1 m))
       (table_matches ''Table 3.2.2.2. and Table A-3.2.1.4.(1)'')
     = [(0, 14, ''3.2.2.2.''), (19, 38, ''A-3.2.1.4.(1)'')]"
  by code_simp

text \<open>
  Claim C9. For every page text, page number and zero-based table index: if the page text
  has fewer than index + 1 matches of the table-number pattern, the extractor returns the
  identifier made of \<open>Table-\<close>, the page number, a dash and the index, with the title
  \<open>Untitled Table\<close>; it returns (\<open>Inr\<close>), so it does not raise.
\<close>

theorem extract_table_metadata_default:
  assumes "0 \<le> table_idx"
    and "int (length (finditer table_pattern page_text)) < table_idx + 1"
  shows "extract_table_metadata page_text page_num table_idx
           = Inr (''Table-'' @ str_int page_num @ ''-'' @ str_int table_idx, ''Untitled Table'')"
  using assms by (simp add: extract_table_metadata_def table_matches_def Let_def)

lemma one_table_number:
  "finditer table_pattern ''Table 3.2.2.2. Walls'' = [(0, 14)]"
  by code_simp

text \<open>
  The theorem at a page with one table number and the index 1, on page 73, and at an
  empty page with the index 0.
\<close>

theorem extract_table_metadata_default_witness:
  "int (length (finditer table_pattern ''Table 3.2.2.2. Walls'')) < 1 + 1
 \<and> extract_table_metadata ''Table 3.2.2.2. Walls'' 73 1 = Inr (''Table-73-1'', ''Untitled Table'')
 \<and> extract_table_metadata [] 5 0 = Inr (''Table-5-0'', ''Untitled Table'')"
proof -
  have h: "int (length (finditer table_pattern ''Table 3.2.2.2. Walls'')) < 1 + 1"
    by (simp add: one_table_number)
  have h0: "int (length (finditer table_pattern [])) < 0 + 1"
    by (simp add: finditer_def table_pattern_def table_prefix_def match_at_def)
  have s: "str_int 73 = ''73''" "str_int 1 = ''1''" "str_int 5 = ''5''" "str_int 0 = ''0''"
    by (simp_all add: str_int_def digit_char_def)
  have i: "(0::int) \<le> 1" "(0::int) \<le> 0" by simp_all
  from extract_table_metadata_default [OF i(1) h, of 73]
       extract_table_metadata_default [OF i(2) h0, of 5] h s
  show ?thesis by simp
qed


section \<open>Properties of the table cleaner\<close>










end
